theory Spec2Isabelle
  imports Complex_Main
begin

section \<open>JavaScript numbers\<close>

text \<open>
  The component state holds JavaScript numbers: times and durations in seconds, and
  container widths. The model keeps the values the code tests for (\<open>NaN\<close>, zero, the
  infinities); the sign of zero is not modelled.

  A product or a quotient of two finite numbers is the exact result rounded to a double,
  which is an infinity when the exact result is too large. The rounding is a parameter
  \<open>rnd\<close> of the model, from the exact result to the number stored, and nothing is assumed
  of it: what is proved holds for the rounding of the engine.
\<close>

datatype number = NaN | Finite real | PosInfinity | NegInfinity

text \<open>Truthiness of a number, as tested by \<^verbatim>\<open>&&\<close>, \<^verbatim>\<open>!\<close> and \<^verbatim>\<open>if\<close>: \<open>NaN\<close> and \<open>0\<close> are falsy.\<close>

fun truthy :: "number \<Rightarrow> bool" where
  "truthy NaN = False"
| "truthy (Finite x) = (x \<noteq> 0)"
| "truthy PosInfinity = True"
| "truthy NegInfinity = True"

fun isNaN :: "number \<Rightarrow> bool" where
  "isNaN NaN = True"
| "isNaN (Finite x) = False"
| "isNaN PosInfinity = False"
| "isNaN NegInfinity = False"

text \<open>The sign of a non-\<open>NaN\<close> number: \<open>-1\<close>, \<open>0\<close> or \<open>1\<close>.\<close>

fun number_sign :: "number \<Rightarrow> real" where
  "number_sign NaN = 0"
| "number_sign (Finite x) = sgn x"
| "number_sign PosInfinity = 1"
| "number_sign NegInfinity = -1"

definition signed_infinity :: "real \<Rightarrow> number" where
  "signed_infinity s = (if s = 0 then NaN else if 0 < s then PosInfinity else NegInfinity)"

text \<open>\<^verbatim>\<open>a * b\<close>: \<open>NaN\<close> is absorbing, and zero times an infinity is \<open>NaN\<close>.\<close>

fun number_times :: "(real \<Rightarrow> number) \<Rightarrow> number \<Rightarrow> number \<Rightarrow> number" where
  "number_times rnd NaN b = NaN"
| "number_times rnd a NaN = NaN"
| "number_times rnd (Finite x) (Finite y) = rnd (x * y)"
| "number_times rnd a b = signed_infinity (number_sign a * number_sign b)"

text \<open>\<^verbatim>\<open>a / b\<close>: a finite number over an infinity is zero, a non-zero number over zero is
  an infinity, and \<open>0 / 0\<close> and an infinity over an infinity are \<open>NaN\<close>.\<close>

fun number_divide :: "(real \<Rightarrow> number) \<Rightarrow> number \<Rightarrow> number \<Rightarrow> number" where
  "number_divide rnd NaN b = NaN"
| "number_divide rnd a NaN = NaN"
| "number_divide rnd (Finite x) (Finite y) =
     (if y = 0 then signed_infinity (sgn x) else rnd (x / y))"
| "number_divide rnd (Finite x) b = Finite 0"
| "number_divide rnd a (Finite y) =
     signed_infinity (number_sign a * (if y < 0 then -1 else 1))"
| "number_divide rnd a b = NaN"

fun is_finite :: "number \<Rightarrow> bool" where
  "is_finite (Finite x) = True"
| "is_finite NaN = False"
| "is_finite PosInfinity = False"
| "is_finite NegInfinity = False"

text \<open>\<^verbatim>\<open>a > b\<close>: false as soon as one side is \<open>NaN\<close>.\<close>

fun number_gt :: "number \<Rightarrow> number \<Rightarrow> bool" where
  "number_gt NaN b = False"
| "number_gt a NaN = False"
| "number_gt (Finite x) (Finite y) = (y < x)"
| "number_gt PosInfinity b = (b \<noteq> PosInfinity)"
| "number_gt NegInfinity b = False"
| "number_gt (Finite x) PosInfinity = False"
| "number_gt (Finite x) NegInfinity = True"

section \<open>The global audio track\<close>

subsection \<open>Data\<close>

text \<open>Modelled from the spec: the type \<^verbatim>\<open>AudioStatus\<close> of \<^verbatim>\<open>#shared/constants/audio\<close> is
  not among the sources; the specification lists its four values.\<close>

datatype AudioStatus = Playing | Paused | Played | Loading

text \<open>Modelled from the spec: the type \<^verbatim>\<open>AudioInteraction\<close> of \<^verbatim>\<open>#shared/types/analytics\<close>
  is not among the sources; the component sends the three values below.\<close>

datatype AudioInteraction = InteractionPlay | InteractionPause | InteractionSeek

text \<open>The part of the browser's audio element that the component reads and writes.\<close>

record HTMLAudioElement =
  el_currentTime :: number
  el_duration :: number
  paused :: bool
  ended :: bool

text \<open>An event as a handler receives it; \<open>target\<close> is \<open>None\<close> for \<^verbatim>\<open>null\<close>.\<close>

record Event =
  target :: "HTMLAudioElement option"

text \<open>The payload of the \<^verbatim>\<open>AUDIO_INTERACTION\<close> analytics event.\<close>

record AudioInteractionPayload =
  payload_id :: string
  payload_provider :: string
  payload_event :: AudioInteraction
  payload_component :: string

text \<open>
  Calls that leave the component, in the order they are made: the active-media store's
  \<^verbatim>\<open>playAudio\<close> with its argument, \<^verbatim>\<open>pause\<close> on the audio element, the analytics
  sink, \<^verbatim>\<open>window.requestAnimationFrame(updateTimeLoop)\<close>, the media store's
  \<^verbatim>\<open>setMediaProperties\<close> for the track with the given id, and the listener registration
  of the watcher.
\<close>

datatype effect =
    PlayAudio "HTMLAudioElement option"
  | ElementPause
  | SendCustomEvent AudioInteractionPayload
  | RequestAnimationFrame
  | SetMediaProperties string
  | AddEventListeners
  | OnInvalidateRemoveEventListeners

text \<open>
  The state the script works on: the fields of \<^verbatim>\<open>props.audio\<close> it reads
  (\<open>audio_duration\<close> is \<open>None\<close> when \<^verbatim>\<open>typeof props.audio?.duration\<close> is not
  \<^verbatim>\<open>"number"\<close>), the shared reference \<^verbatim>\<open>activeAudio.obj\<close>, the three refs of the
  component, and the calls made so far.
\<close>

record VGlobalAudioTrack =
  audio_id :: string
  audio_provider :: string
  audio_duration :: "number option"
  hasLoaded :: bool
  obj :: "HTMLAudioElement option"
  status :: AudioStatus
  currentTime :: number
  duration :: "number option"
  effects :: "effect list"

subsection \<open>The refs\<close>

text \<open>The getter passed to \<^verbatim>\<open>defaultRef\<close>: the track's duration is in milliseconds.\<close>

definition duration_default :: "(real \<Rightarrow> number) \<Rightarrow> VGlobalAudioTrack \<Rightarrow> number" where
  "duration_default rnd s =
     (case audio_duration s of
        Some d \<Rightarrow> number_divide rnd d (Finite 1000)
      | None \<Rightarrow> Finite 0)"

text \<open>Modelled from the spec: \<^verbatim>\<open>defaultRef\<close> of \<^verbatim>\<open>~/composables/default-ref\<close> is not among
  the sources. The specification says that the duration "defaults to 0 until" a value is
  observed: the ref reads as the value of its getter until it is assigned, and as the
  assigned value from then on. The field \<open>duration\<close> is \<open>None\<close> while nothing was assigned.\<close>

definition duration_value :: "(real \<Rightarrow> number) \<Rightarrow> VGlobalAudioTrack \<Rightarrow> number" where
  "duration_value rnd s =
     (case duration s of None \<Rightarrow> duration_default rnd s | Some d \<Rightarrow> d)"

definition duration_assign :: "number \<Rightarrow> VGlobalAudioTrack \<Rightarrow> VGlobalAudioTrack" where
  "duration_assign d s = s\<lparr>duration := Some d\<rparr>"

text \<open>The refs as the script creates them: status \<^verbatim>\<open>"paused"\<close>, time \<open>0\<close>, duration not
  assigned.\<close>

definition script_refs :: "string \<Rightarrow> string \<Rightarrow> number option \<Rightarrow> bool \<Rightarrow> HTMLAudioElement option
    \<Rightarrow> VGlobalAudioTrack" where
  "script_refs i p d l a =
     \<lparr>audio_id = i, audio_provider = p, audio_duration = d, hasLoaded = l, obj = a,
      status = Paused, currentTime = Finite 0, duration = None, effects = []\<rparr>"

subsection \<open>Event handlers\<close>

definition call :: "effect \<Rightarrow> VGlobalAudioTrack \<Rightarrow> VGlobalAudioTrack" where
  "call e s = s\<lparr>effects := effects s @ [e]\<rparr>"

definition updateTimeLoop :: "VGlobalAudioTrack \<Rightarrow> VGlobalAudioTrack" where
  "updateTimeLoop s =
     (case obj s of
        None \<Rightarrow> s
      | Some a \<Rightarrow>
          if status s = Playing \<or> status s = Loading
          then call RequestAnimationFrame (s\<lparr>currentTime := el_currentTime a\<rparr>)
          else s)"

definition setPlaying :: "VGlobalAudioTrack \<Rightarrow> VGlobalAudioTrack" where
  "setPlaying s =
     updateTimeLoop (if hasLoaded s then s\<lparr>status := Playing\<rparr> else s\<lparr>status := Loading\<rparr>)"

definition setPaused :: "VGlobalAudioTrack \<Rightarrow> VGlobalAudioTrack" where
  "setPaused s = s\<lparr>status := Paused\<rparr>"

definition setPlayed :: "VGlobalAudioTrack \<Rightarrow> VGlobalAudioTrack" where
  "setPlayed s = s\<lparr>status := Played\<rparr>"

text \<open>The nullish coalescing operator \<^verbatim>\<open>??\<close>.\<close>

definition nullish :: "'a option \<Rightarrow> 'a \<Rightarrow> 'a" where
  "nullish v d = (case v of None \<Rightarrow> d | Some x \<Rightarrow> x)"

text \<open>The handler of \<^verbatim>\<open>timeupdate\<close>. The target is read as an audio element, whose
  \<^verbatim>\<open>currentTime\<close> is always a number, so the \<^verbatim>\<open>?? 0\<close> finds a value.\<close>

definition setTimeWhenPaused :: "Event \<Rightarrow> VGlobalAudioTrack \<Rightarrow> VGlobalAudioTrack" where
  "setTimeWhenPaused event s =
     (case target event of
        None \<Rightarrow> s
      | Some t \<Rightarrow>
          if status s \<noteq> Playing
          then (let s1 = s\<lparr>currentTime := nullish (Some (el_currentTime t)) (Finite 0)\<rparr>
                in if status s1 = Played then s1\<lparr>status := Paused\<rparr> else s1)
          else s)"

definition setDuration :: "VGlobalAudioTrack \<Rightarrow> VGlobalAudioTrack" where
  "setDuration s =
     (case obj s of None \<Rightarrow> s | Some a \<Rightarrow> duration_assign (el_duration a) s)"

text \<open>Modelled from the spec: \<^verbatim>\<open>setMediaProperties\<close> of \<^verbatim>\<open>~/stores/media\<close> is not among the
  sources. The specification describes a store of a \<^verbatim>\<open>hasLoaded\<close> flag that is "read back"
  on a \<^verbatim>\<open>play\<close> event: the call is recorded and the flag of the track is set.\<close>

definition setLoaded :: "VGlobalAudioTrack \<Rightarrow> VGlobalAudioTrack" where
  "setLoaded s =
     (call (SetMediaProperties (audio_id s)) s)\<lparr>hasLoaded := True, status := Playing\<rparr>"

definition setWaiting :: "VGlobalAudioTrack \<Rightarrow> VGlobalAudioTrack" where
  "setWaiting s = s\<lparr>status := Loading\<rparr>"

datatype EventName =
  Ev_play | Ev_pause | Ev_ended | Ev_timeupdate | Ev_durationchange | Ev_waiting | Ev_playing

fun eventMap :: "EventName \<Rightarrow> Event \<Rightarrow> VGlobalAudioTrack \<Rightarrow> VGlobalAudioTrack" where
  "eventMap Ev_play event = setPlaying"
| "eventMap Ev_pause event = setPaused"
| "eventMap Ev_ended event = setPlayed"
| "eventMap Ev_timeupdate event = setTimeWhenPaused event"
| "eventMap Ev_durationchange event = setDuration"
| "eventMap Ev_waiting event = setWaiting"
| "eventMap Ev_playing event = setLoaded"

subsection \<open>The watcher of the active audio\<close>

text \<open>The callback of \<^verbatim>\<open>watch(activeAudio.obj, ...)\<close>, run with the new value of the
  reference.\<close>

definition watch_activeAudio :: "HTMLAudioElement option \<Rightarrow> VGlobalAudioTrack \<Rightarrow> VGlobalAudioTrack"
  where
  "watch_activeAudio audio s =
     (case audio of
        None \<Rightarrow> s
      | Some a \<Rightarrow>
          (let s1 = call AddEventListeners s;
               s2 = s1\<lparr>currentTime := el_currentTime a\<rparr>;
               s3 = (if truthy (el_duration a) \<and> \<not> isNaN (el_duration a)
                     then duration_assign (el_duration a) s2 else s2);
               s4 = (if paused a
                     then (if ended a then setPlayed s3 else setPaused s3)
                     else setPlaying s3)
           in call OnInvalidateRemoveEventListeners s4))"

text \<open>The reference changes to a new value and the watcher runs on it.\<close>

definition rebind :: "HTMLAudioElement option \<Rightarrow> VGlobalAudioTrack \<Rightarrow> VGlobalAudioTrack" where
  "rebind audio s = watch_activeAudio audio (s\<lparr>obj := audio\<rparr>)"

text \<open>The component once the script has run: the watcher is \<^verbatim>\<open>immediate\<close>, so it runs
  on the active audio that is there at that moment.\<close>

definition mounted :: "string \<Rightarrow> string \<Rightarrow> number option \<Rightarrow> bool \<Rightarrow> HTMLAudioElement option
    \<Rightarrow> VGlobalAudioTrack" where
  "mounted i p d l a = watch_activeAudio a (script_refs i p d l a)"

subsection \<open>Playback controls and seeking\<close>

definition play :: "VGlobalAudioTrack \<Rightarrow> VGlobalAudioTrack" where
  "play s = call (PlayAudio (obj s)) s"

text \<open>\<^verbatim>\<open>activeAudio.obj.value?.pause()\<close>: nothing is called when no element is bound.\<close>

definition pause :: "VGlobalAudioTrack \<Rightarrow> VGlobalAudioTrack" where
  "pause s = (case obj s of None \<Rightarrow> s | Some a \<Rightarrow> call ElementPause s)"

definition sendAudioInteractionEvent :: "AudioInteraction \<Rightarrow> VGlobalAudioTrack \<Rightarrow> VGlobalAudioTrack"
  where
  "sendAudioInteractionEvent event s =
     call (SendCustomEvent \<lparr>payload_id = audio_id s, payload_provider = audio_provider s,
                            payload_event = event, payload_component = ''VGlobalAudioTrack''\<rparr>) s"

text \<open>
  \<^verbatim>\<open>handleToggle(state?)\<close>. The declared parameter is \<^verbatim>\<open>"playing" | "paused"\<close> or absent;
  the model takes any status, as the two \<^verbatim>\<open>switch\<close> statements do at run time, with
  \<open>None\<close> for an absent one. The result of the first \<^verbatim>\<open>switch\<close> is \<open>toggle_state\<close>.
\<close>

definition toggle_state :: "AudioStatus option \<Rightarrow> AudioStatus \<Rightarrow> AudioStatus option" where
  "toggle_state state st =
     (case state of
        None \<Rightarrow>
          (case st of
             Playing \<Rightarrow> Some Paused
           | Paused \<Rightarrow> Some Playing
           | Played \<Rightarrow> Some Playing
           | Loading \<Rightarrow> None)
      | Some t \<Rightarrow> Some t)"

definition handleToggle :: "AudioStatus option \<Rightarrow> VGlobalAudioTrack \<Rightarrow> VGlobalAudioTrack" where
  "handleToggle state s =
     (let state1 = toggle_state state (status s);
          (s1, event) =
             (case state1 of
                Some Playing \<Rightarrow> (play s, Some InteractionPlay)
              | Some Paused \<Rightarrow> (pause s, Some InteractionPause)
              | _ \<Rightarrow> (s, None))
      in case event of
           None \<Rightarrow> s1
         | Some e \<Rightarrow> sendAudioInteractionEvent e s1)"

text \<open>
  The assignment to \<^verbatim>\<open>currentTime\<close> of an audio element is the one statement of the
  script that can throw: the attribute of the browser's element is a restricted double,
  and the assignment of \<open>NaN\<close> or of an infinity raises a \<^verbatim>\<open>TypeError\<close>.
\<close>

datatype error = TypeError

definition set_currentTime :: "number \<Rightarrow> HTMLAudioElement \<Rightarrow> error + HTMLAudioElement" where
  "set_currentTime v a = (if is_finite v then Inr (a\<lparr>el_currentTime := v\<rparr>) else Inl TypeError)"

text \<open>\<^verbatim>\<open>handleSeeked(frac)\<close>: an exception of the assignment ends the handler before the
  analytics event is sent.\<close>

definition handleSeeked :: "(real \<Rightarrow> number) \<Rightarrow> number \<Rightarrow> VGlobalAudioTrack
    \<Rightarrow> error + VGlobalAudioTrack" where
  "handleSeeked rnd frac' s =
     (case obj s of
        None \<Rightarrow> Inr s
      | Some a \<Rightarrow>
          (case set_currentTime (number_times rnd frac' (duration_value rnd s)) a of
             Inl e \<Rightarrow> Inl e
           | Inr a1 \<Rightarrow> Inr (sendAudioInteractionEvent InteractionSeek (s\<lparr>obj := Some a1\<rparr>))))"

section \<open>The collapsible tag section\<close>

subsection \<open>Data\<close>

text \<open>The number of rows to display before collapsing the tags.\<close>

definition ROWS_TO_DISPLAY :: nat where
  "ROWS_TO_DISPLAY = 3"

text \<open>Modelled from the spec: the type \<^verbatim>\<open>Tag\<close> of \<^verbatim>\<open>#shared/types/media\<close> is not among the
  sources; the component reads the name of a tag only.\<close>

record Tag =
  name :: string

text \<open>The text direction of the locale; the component tests it for \<^verbatim>\<open>"rtl"\<close> only.\<close>

datatype Direction = Ltr | Rtl | Auto

text \<open>A child of the tag list, with the one layout property that is read.\<close>

record HTMLElement =
  offsetLeft :: int

datatype ButtonStatus = Show | Hide

text \<open>The callbacks handed to \<^verbatim>\<open>nextTick\<close>: the measurement of the width watcher and the
  focus move of the button.\<close>

datatype tick_callback = FindRowStarts | FocusFirstTagInFourthRow

text \<open>The calls that leave the component: the \<^verbatim>\<open>TOGGLE_TAG_EXPANSION\<close> analytics event with
  its \<^verbatim>\<open>toState\<close>, and \<^verbatim>\<open>focusElement\<close> on the link of the child at an index.\<close>

datatype tag_effect = ToggleTagExpansion string | FocusElement nat

record VCollapsibleTagSection =
  tags :: "Tag list"
  dir :: Direction
  collapsibleRowsStartAt :: "nat option"
  buttonStatus :: ButtonStatus
  listWidth :: "number option"
  nextTicks :: "tick_callback list"
  tag_effects :: "tag_effect list"

definition tag_section :: "Tag list \<Rightarrow> Direction \<Rightarrow> VCollapsibleTagSection" where
  "tag_section ts d =
     \<lparr>tags = ts, dir = d, collapsibleRowsStartAt = None, buttonStatus = Show,
      listWidth = None, nextTicks = [], tag_effects = []\<rparr>"

subsection \<open>Row detection\<close>

definition isFurtherInline :: "Direction \<Rightarrow> HTMLElement \<Rightarrow> HTMLElement \<Rightarrow> bool" where
  "isFurtherInline d previous current =
     (if d = Rtl then offsetLeft previous < offsetLeft current
      else offsetLeft previous > offsetLeft current)"

text \<open>\<^verbatim>\<open>child.previousElementSibling\<close> of the child at index \<open>i\<close> of its parent.\<close>

definition previousElementSibling :: "HTMLElement list \<Rightarrow> nat \<Rightarrow> HTMLElement option" where
  "previousElementSibling children i = (if i = 0 then None else Some (children ! (i - 1)))"

text \<open>The \<^verbatim>\<open>for\<close> loop of \<^verbatim>\<open>findRowStartsAt\<close>, from index \<open>i\<close> with the rows counted so far.\<close>

function findRowStartsAt_loop :: "Direction \<Rightarrow> HTMLElement list \<Rightarrow> nat \<Rightarrow> nat \<Rightarrow> nat" where
  "findRowStartsAt_loop d children i rowCount =
     (if i < length children
      then (let child = children ! i;
                rowCount1 =
                  (case previousElementSibling children i of
                     None \<Rightarrow> rowCount + 1
                   | Some previous \<Rightarrow>
                       if isFurtherInline d previous child then rowCount + 1 else rowCount)
            in if rowCount1 = ROWS_TO_DISPLAY + 1 then i
               else findRowStartsAt_loop d children (i + 1) rowCount1)
      else length children)"
  by pat_completeness auto
termination
  by (relation "measure (\<lambda>(d, children, i, rowCount). length children - i)") auto

definition findRowStartsAt :: "Direction \<Rightarrow> HTMLElement list \<Rightarrow> nat" where
  "findRowStartsAt d children =
     (if children = [] then 0 else findRowStartsAt_loop d children 0 0)"

subsection \<open>Computed values\<close>

text \<open>\<^verbatim>\<open>Array.from(new Set(...))\<close>: a set keeps its elements in insertion order, and adding
  an element it has already changes nothing.\<close>

definition Set_add :: "'a list \<Rightarrow> 'a \<Rightarrow> 'a list" where
  "Set_add xs x = (if x \<in> set xs then xs else xs @ [x])"

definition normalizedTags :: "VCollapsibleTagSection \<Rightarrow> string list" where
  "normalizedTags s = foldl Set_add [] (map name (tags s))"

text \<open>Truthiness of the index ref: \<^verbatim>\<open>undefined\<close> and \<open>0\<close> are falsy.\<close>

definition index_truthy :: "nat option \<Rightarrow> bool" where
  "index_truthy v = (case v of None \<Rightarrow> False | Some i \<Rightarrow> i \<noteq> 0)"

definition visibleTags :: "VCollapsibleTagSection \<Rightarrow> string list" where
  "visibleTags s =
     (if index_truthy (collapsibleRowsStartAt s) \<and> buttonStatus s = Show
      then take (the (collapsibleRowsStartAt s)) (normalizedTags s)
      else normalizedTags s)"

text \<open>\<open>hasOverflow\<close> as the template and \<^verbatim>\<open>heightClass\<close> test it, by its truthiness.\<close>

definition hasOverflow :: "VCollapsibleTagSection \<Rightarrow> bool" where
  "hasOverflow s =
     (case collapsibleRowsStartAt s of
        None \<Rightarrow> False
      | Some i \<Rightarrow> i \<noteq> 0 \<and> i < length (normalizedTags s))"

subsection \<open>Callbacks\<close>

text \<open>
  \<^verbatim>\<open>tagsContainerRef.value\<close> is passed to the callbacks that read it, as the list of the
  children of the container, or \<open>None\<close> while there is no container.
\<close>

definition measure_rows :: "HTMLElement list option \<Rightarrow> VCollapsibleTagSection \<Rightarrow> VCollapsibleTagSection"
  where
  "measure_rows container s =
     (case container of
        None \<Rightarrow> s
      | Some children \<Rightarrow> s\<lparr>collapsibleRowsStartAt := Some (findRowStartsAt (dir s) children)\<rparr>)"

definition onMounted :: "HTMLElement list option \<Rightarrow> VCollapsibleTagSection \<Rightarrow> VCollapsibleTagSection"
  where
  "onMounted container s = measure_rows container s"

definition handleClick :: "VCollapsibleTagSection \<Rightarrow> VCollapsibleTagSection" where
  "handleClick s =
     (let s1 = s\<lparr>buttonStatus := (if buttonStatus s = Show then Hide else Show)\<rparr>;
          s2 = s1\<lparr>tag_effects := tag_effects s1 @
                  [ToggleTagExpansion (if buttonStatus s1 = Show then ''collapsed'' else ''expanded'')]\<rparr>
      in if buttonStatus s2 = Hide \<and> index_truthy (collapsibleRowsStartAt s2)
         then s2\<lparr>nextTicks := nextTicks s2 @ [FocusFirstTagInFourthRow]\<rparr>
         else s2)"

text \<open>The callback of the resize observer.\<close>

definition resized :: "number \<Rightarrow> VCollapsibleTagSection \<Rightarrow> VCollapsibleTagSection" where
  "resized width s = s\<lparr>listWidth := Some width\<rparr>"

text \<open>\<^verbatim>\<open>oldWidth && newWidth && newWidth > oldWidth\<close>, by its truthiness.\<close>

definition isWidening :: "number option \<Rightarrow> number option \<Rightarrow> bool" where
  "isWidening newWidth oldWidth =
     (case oldWidth of
        None \<Rightarrow> False
      | Some ow \<Rightarrow>
          truthy ow \<and>
          (case newWidth of
             None \<Rightarrow> False
           | Some nw \<Rightarrow> truthy nw \<and> number_gt nw ow))"

text \<open>The callback of \<^verbatim>\<open>watchDebounced(listWidth, ...)\<close>, as it runs once the delay has
  passed, with the new and the old width.\<close>

definition listWidth_watch :: "HTMLElement list option \<Rightarrow> number option \<Rightarrow> number option
    \<Rightarrow> VCollapsibleTagSection \<Rightarrow> VCollapsibleTagSection" where
  "listWidth_watch container newWidth oldWidth s =
     (case container of
        None \<Rightarrow> s
      | Some children \<Rightarrow>
          (let s1 = (if isWidening newWidth oldWidth
                     then s\<lparr>collapsibleRowsStartAt := Some (length (normalizedTags s))\<rparr>
                     else s)
           in s1\<lparr>nextTicks := nextTicks s1 @ [FindRowStarts]\<rparr>))"

text \<open>The first callback waiting for the next tick runs, on the container as rendered by
  then.\<close>

definition run_tick_callback :: "tick_callback \<Rightarrow> HTMLElement list option \<Rightarrow> VCollapsibleTagSection
    \<Rightarrow> VCollapsibleTagSection" where
  "run_tick_callback cb container s =
     (case cb of
        FindRowStarts \<Rightarrow> measure_rows container s
      | FocusFirstTagInFourthRow \<Rightarrow>
          (if \<not> index_truthy (collapsibleRowsStartAt s) then s
           else s\<lparr>tag_effects := tag_effects s @ [FocusElement (the (collapsibleRowsStartAt s))]\<rparr>))"

definition nextTick :: "HTMLElement list option \<Rightarrow> VCollapsibleTagSection \<Rightarrow> VCollapsibleTagSection"
  where
  "nextTick container s =
     (case nextTicks s of
        [] \<Rightarrow> s
      | cb # rest \<Rightarrow> run_tick_callback cb container (s\<lparr>nextTicks := rest\<rparr>))"

subsection \<open>Rendering and runs of the component\<close>

text \<open>
  The container holds one child for each visible tag. Where the browser places them
  is not the component's doing: a layout gives the offset of the child at each index.
\<close>

type_synonym layout = "nat \<Rightarrow> int"

definition rendered :: "layout \<Rightarrow> VCollapsibleTagSection \<Rightarrow> HTMLElement list" where
  "rendered l s = map (\<lambda>i. \<lparr>offsetLeft = l i\<rparr>) [0..<length (visibleTags s)]"

text \<open>What can happen to the component: it is mounted, the observer reports a width, the
  debounced watcher runs, a tick passes, the button is clicked, and the parent passes a new
  list of tags (the prop is reactive, and the component has no watcher on it). The layout
  that comes with a step is the one the browser has produced by then; \<open>None\<close> stands for a
  container that is not there.\<close>

datatype tag_step =
    SetTags "Tag list"
  | Mount "layout option"
  | Resize number
  | WidthWatch "layout option" "number option" "number option"
  | Tick "layout option"
  | Click

definition container_of :: "layout option \<Rightarrow> VCollapsibleTagSection \<Rightarrow> HTMLElement list option" where
  "container_of l s = (case l of None \<Rightarrow> None | Some f \<Rightarrow> Some (rendered f s))"

fun tag_do :: "tag_step \<Rightarrow> VCollapsibleTagSection \<Rightarrow> VCollapsibleTagSection" where
  "tag_do (SetTags ts) s = s\<lparr>tags := ts\<rparr>"
| "tag_do (Mount l) s = onMounted (container_of l s) s"
| "tag_do (Resize w) s = resized w s"
| "tag_do (WidthWatch l nw ow) s = listWidth_watch (container_of l s) nw ow s"
| "tag_do (Tick l) s = nextTick (container_of l s) s"
| "tag_do Click s = handleClick s"

fun tag_run :: "tag_step list \<Rightarrow> VCollapsibleTagSection \<Rightarrow> VCollapsibleTagSection" where
  "tag_run [] s = s"
| "tag_run (a # as) s = tag_run as (tag_do a s)"

text \<open>The steps that leave the list of tags as it is.\<close>

fun keeps_tags :: "tag_step \<Rightarrow> bool" where
  "keeps_tags (SetTags ts) = False"
| "keeps_tags (Mount l) = True"
| "keeps_tags (Resize w) = True"
| "keeps_tags (WidthWatch l nw ow) = True"
| "keeps_tags (Tick l) = True"
| "keeps_tags Click = True"

text \<open>The invariant of the specification: an index that is set lies between \<open>0\<close> and the
  number of normalized tags, and overflow is reported exactly when the index is less than
  that number; while the index is not set, no overflow is reported.\<close>

definition index_within_tags :: "VCollapsibleTagSection \<Rightarrow> bool" where
  "index_within_tags s =
     (case collapsibleRowsStartAt s of
        None \<Rightarrow> \<not> hasOverflow s
      | Some i \<Rightarrow>
          0 \<le> i \<and> i \<le> length (normalizedTags s) \<and>
          hasOverflow s = (i < length (normalizedTags s)))"

section \<open>Runs of the audio track\<close>

text \<open>
  What can happen to the component between renders: the audio element fires one of the
  events the component listens to, the active audio is replaced, a control asks for a
  toggle or a seek, an animation frame runs the callback that \<open>updateTimeLoop\<close> has
  requested, and the browser changes the state of the bound element (the time advances,
  playback pauses or ends). Every step is allowed in every state, so that the runs of the
  model include those of the component: an event is handled whether or not its listener
  is still attached. A seek that throws leaves the state as it was.
\<close>

datatype track_step =
    Dispatch EventName Event
  | Rebind "HTMLAudioElement option"
  | Toggle "AudioStatus option"
  | Seek number
  | AnimationFrame
  | ElementChange HTMLAudioElement

fun track_do :: "(real \<Rightarrow> number) \<Rightarrow> track_step \<Rightarrow> VGlobalAudioTrack \<Rightarrow> VGlobalAudioTrack"
  where
  "track_do rnd (Dispatch n event) s = eventMap n event s"
| "track_do rnd (Rebind audio) s = rebind audio s"
| "track_do rnd (Toggle state) s = handleToggle state s"
| "track_do rnd (Seek f) s = (case handleSeeked rnd f s of Inl e \<Rightarrow> s | Inr s1 \<Rightarrow> s1)"
| "track_do rnd AnimationFrame s = updateTimeLoop s"
| "track_do rnd (ElementChange a) s =
     (case obj s of None \<Rightarrow> s | Some b \<Rightarrow> s\<lparr>obj := Some a\<rparr>)"

fun track_run :: "(real \<Rightarrow> number) \<Rightarrow> track_step list \<Rightarrow> VGlobalAudioTrack \<Rightarrow> VGlobalAudioTrack"
  where
  "track_run rnd [] s = s"
| "track_run rnd (a # as) s = track_run rnd as (track_do rnd a s)"

section \<open>Row detection as the specification words it\<close>

text \<open>
  The specification describes the result of \<open>findRowStartsAt\<close> without the loop: an
  element starts a new row if it has no predecessor or lies less far along the inline axis
  than its predecessor; the result is the index of the element that starts row
  \<open>ROWS_TO_DISPLAY + 1\<close>, or the number of elements when there is no such row. A direction
  other than right-to-left is read as left-to-right.
\<close>

definition starts_new_row :: "Direction \<Rightarrow> HTMLElement list \<Rightarrow> nat \<Rightarrow> bool" where
  "starts_new_row d children i =
     (i = 0 \<or>
      (if d = Rtl then offsetLeft (children ! i) > offsetLeft (children ! (i - 1))
       else offsetLeft (children ! i) < offsetLeft (children ! (i - 1))))"

definition row_starts :: "Direction \<Rightarrow> HTMLElement list \<Rightarrow> nat list" where
  "row_starts d children = filter (starts_new_row d children) [0..<length children]"

definition row_break_index :: "Direction \<Rightarrow> HTMLElement list \<Rightarrow> nat" where
  "row_break_index d children =
     (if ROWS_TO_DISPLAY + 1 \<le> length (row_starts d children)
      then row_starts d children ! ROWS_TO_DISPLAY
      else length children)"

text \<open>What every measurement leaves behind: an index within the tags, which is zero only
  when there are no tags.\<close>

definition index_ok :: "VCollapsibleTagSection \<Rightarrow> bool" where
  "index_ok s =
     (case collapsibleRowsStartAt s of
        None \<Rightarrow> True
      | Some i \<Rightarrow>
          i \<le> length (normalizedTags s) \<and> (if i = 0 then normalizedTags s = [] else True))"

section \<open>Properties of the audio track\<close>

lemmas rebind_defs =
  rebind_def watch_activeAudio_def setPlaying_def setPaused_def setPlayed_def
  updateTimeLoop_def call_def duration_assign_def Let_def

subsection \<open>Rebinding\<close>

text \<open>
  C1 as amended. When the active audio changes to an element, the status follows the flags
  of that element, whatever the status was before: a paused element gives \<open>Played\<close> if it
  has ended and \<open>Paused\<close> if not; an element that is not paused gives \<open>Playing\<close> if the
  track has loaded and \<open>Loading\<close> if not, whether or not it has ended, and then the time
  loop runs once and asks for the next frame. The displayed time is the element's in every
  case.
\<close>

theorem rebind_reconciles_status:
  "status (rebind (Some a) s) =
     (if paused a then (if ended a then Played else Paused)
      else (if hasLoaded s then Playing else Loading)) \<and>
   currentTime (rebind (Some a) s) = el_currentTime a \<and>
   effects (rebind (Some a) s) =
     effects s @ [AddEventListeners] @ (if paused a then [] else [RequestAnimationFrame])
       @ [OnInvalidateRemoveEventListeners]"
  by (simp add: rebind_defs)

text \<open>
  C1 as stated fails twice. An element that is not paused, bound to a track that has not
  loaded yet, gives \<open>Loading\<close> and not \<open>Playing\<close>; and an element that has ended without
  being paused gives \<open>Playing\<close> and not \<open>Played\<close>.
\<close>

theorem rebind_status_counterexample:
  "status (rebind (Some \<lparr>el_currentTime = Finite 0, el_duration = NaN,
                          paused = False, ended = False\<rparr>)
            (mounted ''id'' ''provider'' None False None)) = Loading \<and>
   status (rebind (Some \<lparr>el_currentTime = Finite 0, el_duration = NaN,
                          paused = False, ended = False\<rparr>)
            (mounted ''id'' ''provider'' None False None)) \<noteq> Playing \<and>
   status (rebind (Some \<lparr>el_currentTime = Finite 9, el_duration = Finite 9,
                          paused = False, ended = True\<rparr>)
            (mounted ''id'' ''provider'' None True None)) = Playing \<and>
   status (rebind (Some \<lparr>el_currentTime = Finite 9, el_duration = Finite 9,
                          paused = False, ended = True\<rparr>)
            (mounted ''id'' ''provider'' None True None)) \<noteq> Played"
  by (simp add: rebind_defs mounted_def script_refs_def)

subsection \<open>The displayed duration\<close>

text \<open>Until something is assigned, a track without a numeric duration shows \<open>0\<close>, and a
  track with one shows it in seconds.\<close>

lemma duration_value_mounted:
  "duration_value rnd (mounted i p None l None) = Finite 0"
  "duration_value rnd (mounted i p (Some (Finite ms)) l None) = rnd (ms / 1000)"
  by (simp_all add: duration_value_def duration_default_def mounted_def script_refs_def
      watch_activeAudio_def)

text \<open>The watcher leaves the displayed duration alone when the new element reports \<open>NaN\<close>.\<close>

lemma rebind_skips_NaN_duration:
  "duration_value rnd (rebind (Some (a\<lparr>el_duration := NaN\<rparr>)) s) = duration_value rnd s"
  by (simp add: rebind_defs duration_value_def duration_default_def split: option.splits)

text \<open>
  C2. The claim asks that a \<open>NaN\<close> duration never replaces the displayed one, also when it
  arrives with a \<^verbatim>\<open>durationchange\<close> event. The watcher tests for \<open>NaN\<close>; the handler of
  \<^verbatim>\<open>durationchange\<close> does not. Here an element with a duration of 200 seconds is bound,
  its duration becomes \<open>NaN\<close>, and the event is handled: the displayed duration goes from
  \<open>200\<close> to \<open>NaN\<close>.
\<close>

theorem setDuration_stores_NaN:
  "duration_value rnd
     (track_run rnd
        [Rebind (Some \<lparr>el_currentTime = Finite 0, el_duration = Finite 200,
                        paused = True, ended = False\<rparr>)]
        (mounted ''id'' ''provider'' None True None)) = Finite 200 \<and>
   duration_value rnd
     (track_run rnd
        [Rebind (Some \<lparr>el_currentTime = Finite 0, el_duration = Finite 200,
                        paused = True, ended = False\<rparr>),
         ElementChange \<lparr>el_currentTime = Finite 0, el_duration = NaN,
                        paused = True, ended = False\<rparr>,
         Dispatch Ev_durationchange
           \<lparr>target = Some \<lparr>el_currentTime = Finite 0, el_duration = NaN,
                            paused = True, ended = False\<rparr>\<rparr>]
        (mounted ''id'' ''provider'' None True None)) = NaN"
  by (simp add: rebind_defs mounted_def script_refs_def setDuration_def duration_value_def)

subsection \<open>Time updates\<close>

text \<open>An event without a target is ignored by the handler of \<^verbatim>\<open>timeupdate\<close>; the events
  that a listener of the audio element receives have the element as their target.\<close>

lemma timeupdate_without_target:
  "target event = None \<Longrightarrow> setTimeWhenPaused event s = s"
  by (simp add: setTimeWhenPaused_def)

text \<open>
  C4. A \<^verbatim>\<open>timeupdate\<close> event that arrives while the status is \<open>Playing\<close> changes nothing,
  whatever the event carries. When the status is not \<open>Playing\<close>, an event fired by an audio
  element (its target) sets the displayed time to the time of that element, and a status
  of \<open>Played\<close> becomes \<open>Paused\<close>; nothing else changes.
\<close>

theorem timeupdate_when_not_playing:
  "(status s = Playing \<longrightarrow> eventMap Ev_timeupdate event s = s) \<and>
   (status s \<noteq> Playing \<and> target event = Some a \<longrightarrow>
      eventMap Ev_timeupdate event s =
        s\<lparr>currentTime := el_currentTime a,
          status := (if status s = Played then Paused else status s)\<rparr>)"
  by (auto simp add: setTimeWhenPaused_def nullish_def Let_def split: option.splits)

theorem timeupdate_when_not_playing_witness:
  "status ((mounted ''id'' ''provider'' None True None)\<lparr>status := Playing\<rparr>) = Playing \<and>
   eventMap Ev_timeupdate
     \<lparr>target = Some \<lparr>el_currentTime = Finite 7, el_duration = Finite 9,
                      paused = False, ended = False\<rparr>\<rparr>
     ((mounted ''id'' ''provider'' None True None)\<lparr>status := Playing\<rparr>) =
     (mounted ''id'' ''provider'' None True None)\<lparr>status := Playing\<rparr> \<and>
   status ((mounted ''id'' ''provider'' None True None)\<lparr>status := Played\<rparr>) \<noteq> Playing \<and>
   eventMap Ev_timeupdate
     \<lparr>target = Some \<lparr>el_currentTime = Finite 7, el_duration = Finite 9,
                      paused = True, ended = False\<rparr>\<rparr>
     ((mounted ''id'' ''provider'' None True None)\<lparr>status := Played\<rparr>) =
     (mounted ''id'' ''provider'' None True None)\<lparr>status := Paused, currentTime := Finite 7\<rparr>"
  using
    timeupdate_when_not_playing
      [of "(mounted ''id'' ''provider'' None True None)\<lparr>status := Playing\<rparr>"
          "\<lparr>target = Some \<lparr>el_currentTime = Finite 7, el_duration = Finite 9,
                           paused = False, ended = False\<rparr>\<rparr>"]
    timeupdate_when_not_playing
      [of "(mounted ''id'' ''provider'' None True None)\<lparr>status := Played\<rparr>"
          "\<lparr>target = Some \<lparr>el_currentTime = Finite 7, el_duration = Finite 9,
                           paused = True, ended = False\<rparr>\<rparr>"
          "\<lparr>el_currentTime = Finite 7, el_duration = Finite 9, paused = True, ended = False\<rparr>"]
  by (simp add: mounted_def script_refs_def watch_activeAudio_def)

subsection \<open>The time loop\<close>

text \<open>
  C9. After any sequence of events, rebindings, toggles, seeks, frames and changes of the
  element: a frame that finds an element bound and the status \<open>Playing\<close> or \<open>Loading\<close>
  stores the time of the element as the displayed time and requests the next frame, and
  changes nothing else; a frame that finds no element, or any other status, changes
  nothing and requests no frame.
\<close>

theorem updateTimeLoop_on_frame:
  "let s = track_run rnd steps s0 in
     (obj s = Some a \<and> (status s = Playing \<or> status s = Loading) \<longrightarrow>
        track_do rnd AnimationFrame s =
          s\<lparr>currentTime := el_currentTime a, effects := effects s @ [RequestAnimationFrame]\<rparr>) \<and>
     (obj s = None \<or> (status s \<noteq> Playing \<and> status s \<noteq> Loading) \<longrightarrow>
        track_do rnd AnimationFrame s = s)"
  by (auto simp add: Let_def updateTimeLoop_def call_def split: option.splits)

theorem updateTimeLoop_on_frame_witness:
  "(let s = track_run Finite
       [Rebind (Some \<lparr>el_currentTime = Finite 3, el_duration = Finite 200,
                       paused = False, ended = False\<rparr>)]
       (mounted ''id'' ''provider'' None True None)
    in obj s = Some \<lparr>el_currentTime = Finite 3, el_duration = Finite 200,
                      paused = False, ended = False\<rparr> \<and>
       status s = Playing \<and>
       effects (track_do Finite AnimationFrame s) = effects s @ [RequestAnimationFrame]) \<and>
   (let s = track_run Finite
       [Rebind (Some \<lparr>el_currentTime = Finite 3, el_duration = Finite 200,
                       paused = False, ended = False\<rparr>),
        Dispatch Ev_pause \<lparr>target = None\<rparr>]
       (mounted ''id'' ''provider'' None True None)
    in status s = Paused \<and> track_do Finite AnimationFrame s = s)"
  using
    updateTimeLoop_on_frame
      [of Finite
          "[Rebind (Some \<lparr>el_currentTime = Finite 3, el_duration = Finite 200,
                            paused = False, ended = False\<rparr>)]"
          "mounted ''id'' ''provider'' None True None"
          "\<lparr>el_currentTime = Finite 3, el_duration = Finite 200, paused = False, ended = False\<rparr>"]
    updateTimeLoop_on_frame
      [of Finite
          "[Rebind (Some \<lparr>el_currentTime = Finite 3, el_duration = Finite 200,
                            paused = False, ended = False\<rparr>),
            Dispatch Ev_pause \<lparr>target = None\<rparr>]"
          "mounted ''id'' ''provider'' None True None"]
  by (simp add: rebind_defs mounted_def script_refs_def)

subsection \<open>Toggling\<close>

text \<open>
  C6. Without a target, a status of \<open>Playing\<close> toggles as the target \<open>Paused\<close> does, and a
  status of \<open>Paused\<close> or \<open>Played\<close> as the target \<open>Playing\<close> does. The target \<open>Playing\<close>
  calls \<^verbatim>\<open>playAudio\<close> with the active audio and sends the \<^verbatim>\<open>play\<close> interaction; the
  target \<open>Paused\<close> calls \<^verbatim>\<open>pause\<close> on the element, if one is bound, and sends the
  \<^verbatim>\<open>pause\<close> interaction; any other target, given or left open by a status of
  \<open>Loading\<close>, makes no call. No toggle changes anything but the calls made.
\<close>

theorem handleToggle_targets:
  "(status s = Playing \<longrightarrow> handleToggle None s = handleToggle (Some Paused) s) \<and>
   (status s = Paused \<or> status s = Played \<longrightarrow>
      handleToggle None s = handleToggle (Some Playing) s) \<and>
   effects (handleToggle (Some Playing) s) =
     effects s @
       [PlayAudio (obj s),
        SendCustomEvent
          \<lparr>payload_id = audio_id s, payload_provider = audio_provider s,
           payload_event = InteractionPlay, payload_component = ''VGlobalAudioTrack''\<rparr>] \<and>
   effects (handleToggle (Some Paused) s) =
     effects s @ (case obj s of None \<Rightarrow> [] | Some a \<Rightarrow> [ElementPause]) @
       [SendCustomEvent
          \<lparr>payload_id = audio_id s, payload_provider = audio_provider s,
           payload_event = InteractionPause, payload_component = ''VGlobalAudioTrack''\<rparr>] \<and>
   handleToggle (Some Played) s = s \<and>
   handleToggle (Some Loading) s = s \<and>
   (status s = Loading \<longrightarrow> effects (handleToggle None s) = effects s) \<and>
   handleToggle state s = s\<lparr>effects := effects (handleToggle state s)\<rparr>"
  by (auto simp add: handleToggle_def toggle_state_def play_def pause_def
        sendAudioInteractionEvent_def call_def
      split: option.splits AudioStatus.splits)

theorem handleToggle_targets_witness:
  "status (mounted ''id'' ''provider'' None True None) = Paused \<and>
   handleToggle None (mounted ''id'' ''provider'' None True None) =
     handleToggle (Some Playing) (mounted ''id'' ''provider'' None True None) \<and>
   effects (handleToggle None (mounted ''id'' ''provider'' None True None)) =
     [PlayAudio None,
      SendCustomEvent
        \<lparr>payload_id = ''id'', payload_provider = ''provider'',
         payload_event = InteractionPlay, payload_component = ''VGlobalAudioTrack''\<rparr>] \<and>
   status ((mounted ''id'' ''provider'' None True None)\<lparr>status := Playing\<rparr>) = Playing \<and>
   handleToggle None ((mounted ''id'' ''provider'' None True None)\<lparr>status := Playing\<rparr>) =
     handleToggle (Some Paused) ((mounted ''id'' ''provider'' None True None)\<lparr>status := Playing\<rparr>) \<and>
   status ((mounted ''id'' ''provider'' None True None)\<lparr>status := Loading\<rparr>) = Loading \<and>
   effects (handleToggle None ((mounted ''id'' ''provider'' None True None)\<lparr>status := Loading\<rparr>)) = []"
  using
    handleToggle_targets [where s = "mounted ''id'' ''provider'' None True None" and state = None]
    handleToggle_targets
      [where s = "(mounted ''id'' ''provider'' None True None)\<lparr>status := Playing\<rparr>"
         and state = None]
    handleToggle_targets
      [where s = "(mounted ''id'' ''provider'' None True None)\<lparr>status := Loading\<rparr>"
         and state = None]
  by (simp add: mounted_def script_refs_def watch_activeAudio_def)

text \<open>
  C10. A toggle without a target while the status is \<open>Loading\<close> leaves the whole state as
  it is: status, displayed time and duration, the bound element, and the calls made, so
  that nothing is played, paused or sent.
\<close>

theorem handleToggle_loading_noop:
  "status s = Loading \<Longrightarrow> handleToggle None s = s"
  by (simp add: handleToggle_def toggle_state_def)

theorem handleToggle_loading_noop_witness:
  "status (setWaiting (mounted ''id'' ''provider'' None False None)) = Loading \<and>
   handleToggle None (setWaiting (mounted ''id'' ''provider'' None False None)) =
     setWaiting (mounted ''id'' ''provider'' None False None)"
proof -
  have loading: "status (setWaiting (mounted ''id'' ''provider'' None False None)) = Loading"
    by (simp add: setWaiting_def)
  show ?thesis
    using loading handleToggle_loading_noop [OF loading] by simp
qed

subsection \<open>Seeking\<close>

text \<open>
  C8 as amended. Without an element, a seek changes nothing, throws nothing and sends
  nothing. With an element bound, a seek to a fraction whose product with the displayed
  duration is a finite number sets the time of the element to that product and sends the
  \<^verbatim>\<open>seek\<close> interaction, and changes nothing else; the product of a finite fraction and
  a finite displayed duration is their exact product as the engine rounds it.

  The third part of the theorem adds what happens otherwise: when the product is not
  finite, the assignment throws and nothing is sent.
\<close>

theorem handleSeeked_finite_product:
  "(obj s = None \<longrightarrow> handleSeeked rnd f s = Inr s) \<and>
   (obj s = Some a \<and> number_times rnd f (duration_value rnd s) = Finite t \<longrightarrow>
      handleSeeked rnd f s =
        Inr (s\<lparr>obj := Some (a\<lparr>el_currentTime := Finite t\<rparr>),
               effects := effects s @
                 [SendCustomEvent
                    \<lparr>payload_id = audio_id s, payload_provider = audio_provider s,
                     payload_event = InteractionSeek,
                     payload_component = ''VGlobalAudioTrack''\<rparr>]\<rparr>)) \<and>
   (obj s = Some a \<and> \<not> is_finite (number_times rnd f (duration_value rnd s)) \<longrightarrow>
      handleSeeked rnd f s = Inl TypeError) \<and>
   number_times rnd (Finite x) (Finite y) = rnd (x * y)"
  by (simp add: handleSeeked_def set_currentTime_def sendAudioInteractionEvent_def call_def)

theorem handleSeeked_finite_product_witness:
  "obj (mounted ''id'' ''provider'' None True None) = None \<and>
   handleSeeked Finite (Finite (1 / 2)) (mounted ''id'' ''provider'' None True None) =
     Inr (mounted ''id'' ''provider'' None True None) \<and>
   obj (mounted ''id'' ''provider'' None True
          (Some \<lparr>el_currentTime = Finite 0, el_duration = Finite 200,
                  paused = True, ended = False\<rparr>)) =
     Some \<lparr>el_currentTime = Finite 0, el_duration = Finite 200, paused = True, ended = False\<rparr> \<and>
   number_times Finite (Finite (1 / 2))
     (duration_value Finite
        (mounted ''id'' ''provider'' None True
           (Some \<lparr>el_currentTime = Finite 0, el_duration = Finite 200,
                   paused = True, ended = False\<rparr>))) = Finite 100 \<and>
   map_sum id obj
     (handleSeeked Finite (Finite (1 / 2))
        (mounted ''id'' ''provider'' None True
           (Some \<lparr>el_currentTime = Finite 0, el_duration = Finite 200,
                   paused = True, ended = False\<rparr>))) =
     Inr (Some \<lparr>el_currentTime = Finite 100, el_duration = Finite 200,
                 paused = True, ended = False\<rparr>) \<and>
   \<not> is_finite
       (number_times Finite (Finite (1 / 2))
          (duration_value Finite
             (mounted ''id'' ''provider'' None True
                (Some \<lparr>el_currentTime = Finite 0, el_duration = PosInfinity,
                        paused = True, ended = False\<rparr>)))) \<and>
   handleSeeked Finite (Finite (1 / 2))
     (mounted ''id'' ''provider'' None True
        (Some \<lparr>el_currentTime = Finite 0, el_duration = PosInfinity,
                paused = True, ended = False\<rparr>)) = Inl TypeError"
  using
    handleSeeked_finite_product
      [where s = "mounted ''id'' ''provider'' None True None" and rnd = Finite
         and f = "Finite (1 / 2)"]
    handleSeeked_finite_product
      [where s = "mounted ''id'' ''provider'' None True
             (Some \<lparr>el_currentTime = Finite 0, el_duration = Finite 200,
                     paused = True, ended = False\<rparr>)"
         and rnd = Finite
         and a = "\<lparr>el_currentTime = Finite 0, el_duration = Finite 200,
                   paused = True, ended = False\<rparr>"
         and f = "Finite (1 / 2)" and t = 100]
    handleSeeked_finite_product
      [where s = "mounted ''id'' ''provider'' None True
             (Some \<lparr>el_currentTime = Finite 0, el_duration = PosInfinity,
                     paused = True, ended = False\<rparr>)"
         and rnd = Finite
         and a = "\<lparr>el_currentTime = Finite 0, el_duration = PosInfinity,
                   paused = True, ended = False\<rparr>"
         and f = "Finite (1 / 2)"]
  by (simp add: mounted_def script_refs_def rebind_defs duration_value_def
      signed_infinity_def)

text \<open>
  C8 as stated fails for a displayed duration that is not finite. An element that reports
  an infinite duration, as a live stream does, passes the test of the watcher, so the
  displayed duration is infinite; a seek to the fraction \<open>1/2\<close> then throws, the time of
  the element is not set and no \<^verbatim>\<open>seek\<close> interaction is sent.
\<close>

theorem handleSeeked_counterexample:
  "obj (mounted ''id'' ''provider'' None True
          (Some \<lparr>el_currentTime = Finite 0, el_duration = PosInfinity,
                  paused = True, ended = False\<rparr>)) =
     Some \<lparr>el_currentTime = Finite 0, el_duration = PosInfinity, paused = True, ended = False\<rparr> \<and>
   duration_value Finite
     (mounted ''id'' ''provider'' None True
        (Some \<lparr>el_currentTime = Finite 0, el_duration = PosInfinity,
                paused = True, ended = False\<rparr>)) = PosInfinity \<and>
   handleSeeked Finite (Finite (1 / 2))
     (mounted ''id'' ''provider'' None True
        (Some \<lparr>el_currentTime = Finite 0, el_duration = PosInfinity,
                paused = True, ended = False\<rparr>)) = Inl TypeError \<and>
   track_do Finite (Seek (Finite (1 / 2)))
     (mounted ''id'' ''provider'' None True
        (Some \<lparr>el_currentTime = Finite 0, el_duration = PosInfinity,
                paused = True, ended = False\<rparr>)) =
     mounted ''id'' ''provider'' None True
        (Some \<lparr>el_currentTime = Finite 0, el_duration = PosInfinity,
                paused = True, ended = False\<rparr>)"
  by (simp add: mounted_def script_refs_def rebind_defs duration_value_def handleSeeked_def
      set_currentTime_def signed_infinity_def)

section \<open>Properties of the collapsible tag section\<close>

subsection \<open>The loop of the row detection\<close>

declare findRowStartsAt_loop.simps [simp del]

text \<open>One pass of the loop body adds one to the counter exactly for an element that starts
  a new row.\<close>

lemma rowCount_step:
  "(case previousElementSibling children i of
      None \<Rightarrow> rowCount + 1
    | Some previous \<Rightarrow>
        if isFurtherInline d previous (children ! i) then rowCount + 1 else rowCount) =
   (rowCount :: nat) + (if starts_new_row d children i then 1 else 0)"
  by (auto simp add: previousElementSibling_def isFurtherInline_def starts_new_row_def)

lemma loop_unfold:
  "findRowStartsAt_loop d children i rowCount =
     (if i < length children
      then (if rowCount + (if starts_new_row d children i then 1 else 0) = ROWS_TO_DISPLAY + 1
            then i
            else findRowStartsAt_loop d children (i + 1)
                   (rowCount + (if starts_new_row d children i then 1 else 0)))
      else length children)"
  by (subst findRowStartsAt_loop.simps) (simp add: rowCount_step Let_def)

text \<open>The loop invariant: the counter is the number of row starts before \<open>i\<close>, and it has
  not reached the cap.\<close>

lemma loop_is_row_break:
  "i \<le> length children \<Longrightarrow>
   rowCount = length (filter (starts_new_row d children) [0..<i]) \<Longrightarrow>
   rowCount \<le> ROWS_TO_DISPLAY \<Longrightarrow>
   findRowStartsAt_loop d children i rowCount = row_break_index d children"
proof (induction "length children - i" arbitrary: i rowCount)
  case 0
  then have "i = length children" by simp
  with 0 show ?case
    using loop_unfold [of d children i rowCount]
    by (simp add: row_break_index_def row_starts_def)
next
  case (Suc k)
  then have less: "i < length children" by simp
  let ?P = "starts_new_row d children"
  have parts: "[0..<length children] = [0..<i] @ i # [Suc i..<length children]"
    using less
    by (metis le0 upt_add_eq_append upt_conv_Cons le_add_diff_inverse less_imp_le_nat)
  show ?case
  proof (cases "?P i \<and> rowCount = ROWS_TO_DISPLAY")
    case True
    have "row_starts d children = filter ?P [0..<i] @ i # filter ?P [Suc i..<length children]"
      unfolding row_starts_def by (subst parts) (simp add: True)
    moreover have "length (filter ?P [0..<i]) = ROWS_TO_DISPLAY"
      using Suc.prems True by simp
    ultimately have "row_break_index d children = i"
      by (simp add: row_break_index_def nth_append)
    moreover have "findRowStartsAt_loop d children i rowCount = i"
      using less True loop_unfold [of d children i rowCount] by simp
    ultimately show ?thesis by simp
  next
    case False
    let ?rc = "rowCount + (if ?P i then 1 else 0)"
    have rc: "?rc = length (filter ?P [0..<Suc i])"
      using Suc.prems by simp
    have le: "?rc \<le> ROWS_TO_DISPLAY"
      using False Suc.prems by auto
    have k: "k = length children - Suc i"
      using Suc.hyps(2) by simp
    have "findRowStartsAt_loop d children (Suc i) ?rc = row_break_index d children"
      using Suc.hyps(1) [OF k _ rc le] less by simp
    moreover have "findRowStartsAt_loop d children i rowCount =
        findRowStartsAt_loop d children (Suc i) ?rc"
      using less le loop_unfold [of d children i rowCount] by simp
    ultimately show ?thesis by simp
  qed
qed

lemma loop_bounds:
  "i \<le> length children \<Longrightarrow>
   i \<le> findRowStartsAt_loop d children i rowCount \<and>
   findRowStartsAt_loop d children i rowCount \<le> length children"
proof (induction "length children - i" arbitrary: i rowCount)
  case 0
  then show ?case using loop_unfold [of d children i rowCount] by simp
next
  case (Suc k)
  then have less: "i < length children" and k: "k = length children - Suc i" by simp_all
  let ?rc = "rowCount + (if starts_new_row d children i then 1 else 0)"
  have ih: "Suc i \<le> findRowStartsAt_loop d children (Suc i) ?rc \<and>
      findRowStartsAt_loop d children (Suc i) ?rc \<le> length children"
    using Suc.hyps(1) [OF k] less by simp
  have "findRowStartsAt_loop d children i rowCount = i \<or>
      findRowStartsAt_loop d children i rowCount = findRowStartsAt_loop d children (Suc i) ?rc"
    using less loop_unfold [of d children i rowCount] by simp
  with ih less show ?case by auto
qed

lemma findRowStartsAt_le: "findRowStartsAt d children \<le> length children"
  using loop_bounds [of 0 children d 0] by (simp add: findRowStartsAt_def)

lemma findRowStartsAt_zero: "findRowStartsAt d children = 0 \<longleftrightarrow> children = []"
proof (cases "children = []")
  case True
  then show ?thesis by (simp add: findRowStartsAt_def)
next
  case False
  then have "findRowStartsAt_loop d children 0 0 = findRowStartsAt_loop d children (Suc 0) 1"
    using loop_unfold [of d children 0 0] by (simp add: starts_new_row_def ROWS_TO_DISPLAY_def)
  moreover have "Suc 0 \<le> findRowStartsAt_loop d children (Suc 0) 1"
    using loop_bounds [of "Suc 0" children d 1] False by (simp add: Suc_le_eq)
  ultimately show ?thesis using False by (simp add: findRowStartsAt_def)
qed

text \<open>
  C5. For every list of children and every direction, \<open>findRowStartsAt\<close> returns what the
  specification describes: with a new row counted for an element that has no predecessor
  or whose offset is less than its predecessor's (greater, when the direction is
  right-to-left), it is the index of the element that starts the fourth row, and the number
  of children when there are fewer than four rows.
\<close>

theorem findRowStartsAt_row_break:
  "findRowStartsAt d children = row_break_index d children \<and> ROWS_TO_DISPLAY + 1 = 4"
proof (cases "children = []")
  case True
  then show ?thesis
    by (simp add: findRowStartsAt_def row_break_index_def row_starts_def ROWS_TO_DISPLAY_def)
next
  case False
  have "findRowStartsAt_loop d children 0 0 = row_break_index d children"
    by (rule loop_is_row_break) simp_all
  with False show ?thesis
    by (simp add: findRowStartsAt_def ROWS_TO_DISPLAY_def)
qed

subsection \<open>The index stays within the tags\<close>

lemma normalizedTags_update [simp]:
  "normalizedTags (s\<lparr>collapsibleRowsStartAt := i\<rparr>) = normalizedTags s"
  "normalizedTags (s\<lparr>buttonStatus := b\<rparr>) = normalizedTags s"
  "normalizedTags (s\<lparr>listWidth := w\<rparr>) = normalizedTags s"
  "normalizedTags (s\<lparr>nextTicks := t\<rparr>) = normalizedTags s"
  "normalizedTags (s\<lparr>tag_effects := e\<rparr>) = normalizedTags s"
  by (simp_all add: normalizedTags_def)

lemma visibleTags_le: "length (visibleTags s) \<le> length (normalizedTags s)"
  by (simp add: visibleTags_def)

lemma visibleTags_empty: "visibleTags s = [] \<longleftrightarrow> normalizedTags s = []"
  by (auto simp add: visibleTags_def index_truthy_def split: option.splits)

text \<open>A measurement of the rendered children gives a good index, whatever it was before.\<close>

lemma measure_rendered_ok: "index_ok (measure_rows (Some (rendered f s)) s)"
proof -
  have "findRowStartsAt (dir s) (rendered f s) \<le> length (normalizedTags s)"
    using findRowStartsAt_le [of "dir s" "rendered f s"] visibleTags_le [of s]
    by (simp add: rendered_def)
  moreover have "findRowStartsAt (dir s) (rendered f s) = 0 \<longleftrightarrow> normalizedTags s = []"
    using visibleTags_empty [of s] by (simp add: findRowStartsAt_zero rendered_def)
  ultimately show ?thesis
    by (auto simp add: index_ok_def measure_rows_def split: option.splits if_splits)
qed

lemma measure_rows_ok: "index_ok s \<Longrightarrow> index_ok (measure_rows (container_of l s) s)"
proof (cases l)
  case None
  assume "index_ok s"
  with None show ?thesis by (simp add: measure_rows_def container_of_def)
next
  case (Some f)
  then show ?thesis using measure_rendered_ok [of f s] by (simp add: container_of_def)
qed

text \<open>So does the reveal of the width watcher.\<close>

lemma reveal_ok:
  "isWidening nw ow \<Longrightarrow> index_ok (listWidth_watch (Some children) nw ow s)"
  by (simp add: index_ok_def listWidth_watch_def Let_def)

text \<open>A step that keeps the tags keeps a good index good.\<close>

lemma tag_do_ok: "keeps_tags a \<Longrightarrow> index_ok s \<Longrightarrow> index_ok (tag_do a s)"
proof (cases a)
  case (SetTags ts)
  assume "keeps_tags a"
  with SetTags show ?thesis by simp
next
  case (Mount l)
  assume "index_ok s"
  then show ?thesis using Mount measure_rows_ok [of s l] by (simp add: onMounted_def)
next
  case (Resize w)
  assume "index_ok s"
  then show ?thesis using Resize
    by (auto simp add: index_ok_def resized_def split: option.splits if_splits)
next
  case (WidthWatch l nw ow)
  assume "index_ok s"
  then show ?thesis using WidthWatch
    by (auto simp add: index_ok_def listWidth_watch_def Let_def split: option.splits if_splits)
next
  case (Tick l)
  assume ok: "index_ok s"
  show ?thesis
  proof (cases "nextTicks s")
    case Nil
    with ok Tick show ?thesis by (simp add: nextTick_def)
  next
    case (Cons cb rest)
    have ok': "index_ok (s\<lparr>nextTicks := rest\<rparr>)"
      using ok by (auto simp add: index_ok_def split: option.splits if_splits)
    have c: "container_of l (s\<lparr>nextTicks := rest\<rparr>) = container_of l s"
      by (simp add: container_of_def rendered_def visibleTags_def split: option.splits)
    show ?thesis
    proof (cases cb)
      case FindRowStarts
      then show ?thesis
        using Tick Cons measure_rows_ok [OF ok', of l] c
        by (simp add: nextTick_def run_tick_callback_def)
    next
      case FocusFirstTagInFourthRow
      then show ?thesis
        using Tick Cons ok'
        by (auto simp add: nextTick_def run_tick_callback_def index_ok_def index_truthy_def
            split: option.splits if_splits)
    qed
  qed
next
  case Click
  assume "index_ok s"
  then show ?thesis using Click
    by (auto simp add: index_ok_def handleClick_def Let_def split: option.splits if_splits)
qed

lemma tag_run_ok: "list_all keeps_tags steps \<Longrightarrow> index_ok s \<Longrightarrow> index_ok (tag_run steps s)"
  by (induction steps arbitrary: s) (simp_all add: tag_do_ok)

lemma index_ok_within: "index_ok s \<Longrightarrow> index_within_tags s"
  by (auto simp add: index_ok_def index_within_tags_def hasOverflow_def
      split: option.splits if_splits)

text \<open>
  C3 as amended. As long as the list of tags has not been replaced since the index was
  last set, an index that is set lies between \<open>0\<close> and the number of normalized tags, and
  overflow is reported exactly when the index is less than that number; while the index
  is not set, no overflow is reported. That is: the property holds after any steps that
  keep the tags, with any layout at each measurement, when they start from the component
  as created, from a measurement of the rendered children in any state, or from the reveal
  of the width watcher in any state.
\<close>

theorem index_within_tags_while_tags_kept:
  "list_all keeps_tags steps \<Longrightarrow>
     index_within_tags (tag_run steps (tag_section ts d)) \<and>
     index_within_tags (tag_run steps (measure_rows (Some (rendered l s)) s)) \<and>
     (isWidening nw ow \<longrightarrow>
        index_within_tags (tag_run steps (listWidth_watch (Some children) nw ow s)))"
proof -
  assume kept: "list_all keeps_tags steps"
  have "index_ok (tag_section ts d)"
    by (simp add: index_ok_def tag_section_def)
  then have created: "index_within_tags (tag_run steps (tag_section ts d))"
    using kept by (simp add: tag_run_ok index_ok_within)
  have measured: "index_within_tags (tag_run steps (measure_rows (Some (rendered l s)) s))"
    using kept measure_rendered_ok [of l s] by (simp add: tag_run_ok index_ok_within)
  have revealed: "index_within_tags (tag_run steps (listWidth_watch (Some children) nw ow s))"
    if "isWidening nw ow"
    using kept reveal_ok [OF that, of children s] by (simp add: tag_run_ok index_ok_within)
  from created measured revealed show ?thesis by simp
qed

theorem index_within_tags_while_tags_kept_witness:
  "list_all keeps_tags [Click, Resize (Finite 300)] \<and>
   isWidening (Some (Finite 200)) (Some (Finite 100)) \<and>
   index_within_tags
     (tag_run [Click, Resize (Finite 300)]
        (tag_section [\<lparr>name = ''a''\<rparr>, \<lparr>name = ''b''\<rparr>] Ltr)) \<and>
   index_within_tags
     (tag_run [Click, Resize (Finite 300)]
        (measure_rows
           (Some (rendered (\<lambda>i. 0)
              (tag_run [SetTags [\<lparr>name = ''a''\<rparr>, \<lparr>name = ''b''\<rparr>]] (tag_section [] Ltr))))
           (tag_run [SetTags [\<lparr>name = ''a''\<rparr>, \<lparr>name = ''b''\<rparr>]] (tag_section [] Ltr)))) \<and>
   index_within_tags
     (tag_run [Click, Resize (Finite 300)]
        (listWidth_watch (Some []) (Some (Finite 200)) (Some (Finite 100))
           (tag_run [SetTags [\<lparr>name = ''a''\<rparr>, \<lparr>name = ''b''\<rparr>]] (tag_section [] Ltr))))"
proof -
  have kept: "list_all keeps_tags [Click, Resize (Finite 300)]"
    by simp
  have wider: "isWidening (Some (Finite 200)) (Some (Finite 100))"
    by (simp add: isWidening_def)
  show ?thesis
    using kept wider
      index_within_tags_while_tags_kept
        [OF kept, of "[\<lparr>name = ''a''\<rparr>, \<lparr>name = ''b''\<rparr>]" Ltr "\<lambda>i. 0"
           "tag_run [SetTags [\<lparr>name = ''a''\<rparr>, \<lparr>name = ''b''\<rparr>]] (tag_section [] Ltr)"
           "Some (Finite 200)" "Some (Finite 100)" "[]"]
    by simp
qed

text \<open>
  C3 as stated fails once the parent replaces the tags, since nothing measures again. A
  section mounted without tags has the index \<open>0\<close>; when two tags arrive, the index is less
  than their number and no overflow is reported. A section mounted with five tags in one
  row has the index \<open>5\<close>; when the list shrinks to two tags, the index lies beyond them.
\<close>

theorem index_within_tags_counterexample:
  "collapsibleRowsStartAt
     (tag_run [Mount (Some (\<lambda>i. 0)), SetTags [\<lparr>name = ''a''\<rparr>, \<lparr>name = ''b''\<rparr>]]
        (tag_section [] Ltr)) = Some 0 \<and>
   length (normalizedTags
     (tag_run [Mount (Some (\<lambda>i. 0)), SetTags [\<lparr>name = ''a''\<rparr>, \<lparr>name = ''b''\<rparr>]]
        (tag_section [] Ltr))) = 2 \<and>
   \<not> hasOverflow
     (tag_run [Mount (Some (\<lambda>i. 0)), SetTags [\<lparr>name = ''a''\<rparr>, \<lparr>name = ''b''\<rparr>]]
        (tag_section [] Ltr)) \<and>
   collapsibleRowsStartAt
     (tag_run [Mount (Some (\<lambda>i. 10 * int i)), SetTags [\<lparr>name = ''a''\<rparr>, \<lparr>name = ''b''\<rparr>]]
        (tag_section [\<lparr>name = ''a''\<rparr>, \<lparr>name = ''b''\<rparr>, \<lparr>name = ''c''\<rparr>, \<lparr>name = ''d''\<rparr>,
                      \<lparr>name = ''e''\<rparr>] Ltr)) = Some 5 \<and>
   length (normalizedTags
     (tag_run [Mount (Some (\<lambda>i. 10 * int i)), SetTags [\<lparr>name = ''a''\<rparr>, \<lparr>name = ''b''\<rparr>]]
        (tag_section [\<lparr>name = ''a''\<rparr>, \<lparr>name = ''b''\<rparr>, \<lparr>name = ''c''\<rparr>, \<lparr>name = ''d''\<rparr>,
                      \<lparr>name = ''e''\<rparr>] Ltr))) = 2"
  by (simp add: tag_section_def onMounted_def measure_rows_def container_of_def rendered_def
      visibleTags_def index_truthy_def normalizedTags_def Set_add_def hasOverflow_def
      findRowStartsAt_def loop_unfold starts_new_row_def ROWS_TO_DISPLAY_def upt_rec)

subsection \<open>Widening\<close>

text \<open>
  C7 as amended. While the container is there, the watcher of the width always hands the
  measurement to the next tick, and the measurement sets the index to the row start found
  in the container as rendered by then. Before that, it sets the index to the number of
  normalized tags exactly when both widths are known, neither is zero, and the new one is
  greater than the old one; a new width that is not greater, an old width of zero and an
  unknown old width leave the index as it is. While the container is not there, the
  watcher changes nothing: it neither reveals nor hands a measurement to the next tick.
\<close>

theorem listWidth_watch_widening:
  "collapsibleRowsStartAt (listWidth_watch (Some children) newWidth oldWidth s) =
     (if isWidening newWidth oldWidth then Some (length (normalizedTags s))
      else collapsibleRowsStartAt s) \<and>
   nextTicks (listWidth_watch (Some children) newWidth oldWidth s) =
     nextTicks s @ [FindRowStarts] \<and>
   collapsibleRowsStartAt (run_tick_callback FindRowStarts (Some children1) s1) =
     Some (findRowStartsAt (dir s1) children1) \<and>
   isWidening (Some (Finite n)) (Some (Finite w)) = (w \<noteq> 0 \<and> n \<noteq> 0 \<and> w < n) \<and>
   isWidening newWidth None = False \<and>
   listWidth_watch None newWidth oldWidth s = s"
  by (simp add: listWidth_watch_def isWidening_def Let_def run_tick_callback_def
      measure_rows_def)

text \<open>
  C7 as stated fails when the old width is zero: five tags are collapsed after the third,
  the width goes from \<open>0\<close> to \<open>100\<close>, and the index stays at \<open>3\<close> instead of becoming \<open>5\<close>.
  It also fails when the container is gone by the time the watcher runs: then nothing is
  revealed and no measurement is handed to the next tick.
\<close>

theorem listWidth_watch_counterexample:
  "number_gt (Finite 100) (Finite 0) \<and>
   length (normalizedTags
     (tag_section [\<lparr>name = ''a''\<rparr>, \<lparr>name = ''b''\<rparr>, \<lparr>name = ''c''\<rparr>, \<lparr>name = ''d''\<rparr>,
                   \<lparr>name = ''e''\<rparr>] Ltr)) = 5 \<and>
   collapsibleRowsStartAt
     (listWidth_watch (Some [\<lparr>offsetLeft = 0\<rparr>, \<lparr>offsetLeft = 0\<rparr>, \<lparr>offsetLeft = 0\<rparr>])
        (Some (Finite 100)) (Some (Finite 0))
        ((tag_section [\<lparr>name = ''a''\<rparr>, \<lparr>name = ''b''\<rparr>, \<lparr>name = ''c''\<rparr>, \<lparr>name = ''d''\<rparr>,
                       \<lparr>name = ''e''\<rparr>] Ltr)\<lparr>collapsibleRowsStartAt := Some 3\<rparr>)) = Some 3 \<and>
   number_gt (Finite 200) (Finite 100) \<and>
   listWidth_watch None (Some (Finite 200)) (Some (Finite 100))
     ((tag_section [\<lparr>name = ''a''\<rparr>, \<lparr>name = ''b''\<rparr>, \<lparr>name = ''c''\<rparr>, \<lparr>name = ''d''\<rparr>,
                    \<lparr>name = ''e''\<rparr>] Ltr)\<lparr>collapsibleRowsStartAt := Some 3\<rparr>) =
     (tag_section [\<lparr>name = ''a''\<rparr>, \<lparr>name = ''b''\<rparr>, \<lparr>name = ''c''\<rparr>, \<lparr>name = ''d''\<rparr>,
                   \<lparr>name = ''e''\<rparr>] Ltr)\<lparr>collapsibleRowsStartAt := Some 3\<rparr>"
  by (simp add: listWidth_watch_def isWidening_def Let_def tag_section_def normalizedTags_def
      Set_add_def)

end
